theory Spec2Isabelle
  imports Complex_Main
begin

section \<open>Data model (src/types.ts)\<close>

text \<open>
  JavaScript numbers are modelled as mathematical reals: every arithmetic operation of the
  source (\<open>+\<close>, \<open>-\<close>, \<open>*\<close>, \<open>/\<close>, \<open>Math.sqrt\<close>, \<open>Math.abs\<close>, \<open>Math.max\<close>) is its exact
  counterpart on \<open>real\<close>; rounding, NaN and the infinities are outside the model.
  An optional field of an interface is an \<open>option\<close>; \<open>None\<close> is JavaScript's \<open>undefined\<close>.
\<close>

type_synonym Point3 = "real \<times> real \<times> real"

datatype ObjectType = POINT | LINE | SEGMENT | PLANE | POLYGON | PRISM | CIRCLE

text \<open>
  The data bag of an object. Besides the declared fields it is open
  (\<open>[key: string]: any\<close>); the extension fields the engine reads are \<open>p1\<close>, \<open>p2\<close> (here \<open>data_p1\<close>, \<open>data_p2\<close>) and
  \<open>points\<close> (here \<open>data_points\<close>, \<open>Some\<close> exactly when the field holds an array).
\<close>

record ObjData =
  position :: "Point3 option"
  normal :: "Point3 option"
  radius :: "real option"
  height :: "real option"
  data_p1 :: "string option"
  data_p2 :: "string option"
  data_points :: "string list option"

record GeometryObject =
  obj_id :: "string option"
  obj_type :: ObjectType
  name :: string
  color :: "string option"
  visible :: "bool option"
  selected :: "bool option"
  fixed :: "bool option"
  points :: "string list option"
  data :: "ObjData option"

datatype ConstraintType =
  DISTANCE | ANGLE | PARALLEL | PERPENDICULAR | POINT_ON_PLANE | POINT_ON_LINE
  | MIDPOINT | EQUAL_LENGTH | FIXED_COORD

record Constraint =
  c_id :: string
  c_type :: ConstraintType
  objectIds :: "string list"
  targetValue :: "real option"
  tolerance :: "real option"
  enabled :: "bool option"
  residual :: "real option"

record SolverStats =
  iterations :: nat
  totalError :: real
  verified :: nat
  total :: nat

record CameraPose =
  cam_position :: Point3
  cam_target :: Point3

text \<open>The state held by \<open>GeometryProvider\<close> that the engine functions read and write.\<close>

record EngineState =
  objects :: "GeometryObject list"
  constraints :: "Constraint list"
  solverStats :: SolverStats
  cameraPose :: CameraPose

text \<open>The only fault the engine code can raise is a JavaScript \<open>TypeError\<close>.\<close>

datatype error = TypeError

section \<open>JavaScript and THREE.Vector3 helpers\<close>

text \<open>Truthiness of an optional boolean and of an optional string.\<close>

definition truthy :: "bool option \<Rightarrow> bool" where
  "truthy b = (b = Some True)"

definition truthy_str :: "string option \<Rightarrow> bool" where
  "truthy_str s = (case s of None \<Rightarrow> False | Some t \<Rightarrow> t \<noteq> [])"

text \<open>Array destructuring \<open>const [a, b, c] = xs\<close>: a missing element is \<open>undefined\<close>.\<close>

definition nth_opt :: "'a list \<Rightarrow> nat \<Rightarrow> 'a option" where
  "nth_opt xs n = (if n < length xs then Some (xs ! n) else None)"

definition vadd :: "Point3 \<Rightarrow> Point3 \<Rightarrow> Point3" where
  "vadd a b = (case a of (ax, ay, az) \<Rightarrow> case b of (bx, by, bz) \<Rightarrow> (ax + bx, ay + by, az + bz))"

definition vsub :: "Point3 \<Rightarrow> Point3 \<Rightarrow> Point3" where
  "vsub a b = (case a of (ax, ay, az) \<Rightarrow> case b of (bx, by, bz) \<Rightarrow> (ax - bx, ay - by, az - bz))"

definition multiplyScalar :: "Point3 \<Rightarrow> real \<Rightarrow> Point3" where
  "multiplyScalar a s = (case a of (ax, ay, az) \<Rightarrow> (ax * s, ay * s, az * s))"

definition distanceToSquared :: "Point3 \<Rightarrow> Point3 \<Rightarrow> real" where
  "distanceToSquared a b =
     (case a of (ax, ay, az) \<Rightarrow> case b of (bx, by, bz) \<Rightarrow>
        (ax - bx) * (ax - bx) + (ay - by) * (ay - by) + (az - bz) * (az - bz))"

definition distanceTo :: "Point3 \<Rightarrow> Point3 \<Rightarrow> real" where
  "distanceTo a b = sqrt (distanceToSquared a b)"



section \<open>The constraint solver (src/hooks/useGeometryEngine.tsx, solve)\<close>

definition MAX_ITER :: nat where
  "MAX_ITER = 50"

definition LEARNING_RATE :: real where
  "LEARNING_RATE = 0.5"

text \<open>\<open>currentObjects.find(o => o.id === i)\<close>: the first object with that id.\<close>

definition find_obj :: "GeometryObject list \<Rightarrow> string option \<Rightarrow> GeometryObject option" where
  "find_obj objs i = find (\<lambda>ob. obj_id ob = i) objs"

text \<open>\<open>p.data?.position\<close>.\<close>

definition data_position :: "GeometryObject \<Rightarrow> Point3 option" where
  "data_position p = (case data p of None \<Rightarrow> None | Some d \<Rightarrow> position d)"

text \<open>
  The assignment \<open>p.data.position = v\<close> through the reference that \<open>find\<close> returned: it
  changes the first object of the working list whose id is \<open>i\<close>, and only the position
  field of its data bag.
\<close>

fun set_position :: "string option \<Rightarrow> Point3 \<Rightarrow> GeometryObject list \<Rightarrow> GeometryObject list" where
  "set_position i v [] = []"
| "set_position i v (p # ps) =
     (if obj_id p = i
      then p\<lparr>data := (case data p of None \<Rightarrow> None | Some d \<Rightarrow> Some (d\<lparr>position := Some v\<rparr>))\<rparr> # ps
      else p # set_position i v ps)"

text \<open>
  \<open>new THREE.Vector3(...M.data!.position!)\<close> of the midpoint branch: the non-null
  assertions are erased at run time, so a missing data bag (property read on
  \<open>undefined\<close>) or a missing position (spread of \<open>undefined\<close>) raises a \<open>TypeError\<close>.
\<close>

definition position_or_raise :: "GeometryObject \<Rightarrow> error + Point3" where
  "position_or_raise p =
     (case data p of None \<Rightarrow> Inl TypeError
      | Some d \<Rightarrow> (case position d of None \<Rightarrow> Inl TypeError | Some v \<Rightarrow> Inr v))"

text \<open>The distance branch of the \<open>forEach\<close> body; \<open>iterError\<close> is threaded through.\<close>

definition distance_step ::
  "Constraint \<Rightarrow> GeometryObject list \<Rightarrow> real \<Rightarrow> GeometryObject list \<times> real" where
  "distance_step c objs iterError =
     (let id1 = nth_opt (objectIds c) 0; id2 = nth_opt (objectIds c) 1 in
      case find_obj objs id1 of None \<Rightarrow> (objs, iterError)
      | Some p1 \<Rightarrow>
      (case find_obj objs id2 of None \<Rightarrow> (objs, iterError)
       | Some p2 \<Rightarrow>
       (case data_position p1 of None \<Rightarrow> (objs, iterError)
        | Some v1 \<Rightarrow>
        (case data_position p2 of None \<Rightarrow> (objs, iterError)
         | Some v2 \<Rightarrow>
           (let dist = distanceTo v1 v2;
                target = (case targetValue c of None \<Rightarrow> 0 | Some t \<Rightarrow> t);
                diff = dist - target;
                iterError' = iterError + \<bar>diff\<bar>
            in if dist > 0.0001
               then (let correction = (diff / dist) * 0.5 * LEARNING_RATE;
                         offset = multiplyScalar (vsub v2 v1) correction;
                         objs1 = (if \<not> truthy (fixed p1)
                                  then set_position id1 (vadd v1 offset) objs else objs);
                         objs2 = (if \<not> truthy (fixed p2)
                                  then set_position id2 (vsub v2 offset) objs1 else objs1)
                     in (objs2, iterError'))
               else (objs, iterError'))))))"

text \<open>The midpoint branch of the \<open>forEach\<close> body.\<close>

definition midpoint_step ::
  "Constraint \<Rightarrow> GeometryObject list \<Rightarrow> real \<Rightarrow> error + (GeometryObject list \<times> real)" where
  "midpoint_step c objs iterError =
     (let midId = nth_opt (objectIds c) 0; idA = nth_opt (objectIds c) 1;
          idB = nth_opt (objectIds c) 2 in
      case find_obj objs midId of None \<Rightarrow> Inr (objs, iterError)
      | Some M \<Rightarrow>
      (case find_obj objs idA of None \<Rightarrow> Inr (objs, iterError)
       | Some A \<Rightarrow>
       (case find_obj objs idB of None \<Rightarrow> Inr (objs, iterError)
        | Some B \<Rightarrow>
        (case position_or_raise M of Inl e \<Rightarrow> Inl e
         | Inr vM \<Rightarrow>
         (case position_or_raise A of Inl e \<Rightarrow> Inl e
          | Inr vA \<Rightarrow>
          (case position_or_raise B of Inl e \<Rightarrow> Inl e
           | Inr vB \<Rightarrow>
             (let targetM = multiplyScalar (vadd vA vB) 0.5;
                  diff = distanceTo vM targetM;
                  iterError' = iterError + diff
              in if \<not> truthy (fixed M)
                 then (let move = multiplyScalar (vsub targetM vM) LEARNING_RATE
                       in Inr (set_position midId (vadd vM move) objs, iterError'))
                 else Inr (objs, iterError'))))))))"

text \<open>One constraint of the \<open>forEach\<close>: the \<open>if / else if\<close> chain on the type tag.\<close>

definition constraint_step ::
  "Constraint \<Rightarrow> GeometryObject list \<Rightarrow> real \<Rightarrow> error + (GeometryObject list \<times> real)" where
  "constraint_step c objs iterError =
     (if c_type c = DISTANCE then Inr (distance_step c objs iterError)
      else if c_type c = MIDPOINT then midpoint_step c objs iterError
      else Inr (objs, iterError))"

text \<open>\<open>activeConstraints.forEach\<close>: one pass over the constraints in stored order.\<close>

fun run_pass ::
  "Constraint list \<Rightarrow> GeometryObject list \<Rightarrow> real \<Rightarrow> error + (GeometryObject list \<times> real)" where
  "run_pass [] objs iterError = Inr (objs, iterError)"
| "run_pass (c # cs) objs iterError =
     (case constraint_step c objs iterError of
        Inl e \<Rightarrow> Inl e
      | Inr (objs', iterError') \<Rightarrow> run_pass cs objs' iterError')"

text \<open>
  The \<open>for (let iter = 0; iter < MAX_ITER; iter++)\<close> loop. The result is the working
  list, \<open>totalResidual\<close>, and the number of passes that were run (the source keeps no such
  counter; it is returned here so that statements about it can be made).
\<close>

function solve_loop ::
  "Constraint list \<Rightarrow> nat \<Rightarrow> GeometryObject list \<Rightarrow> real
     \<Rightarrow> error + (GeometryObject list \<times> real \<times> nat)" where
  "solve_loop cs iter objs totalResidual =
     (if iter < MAX_ITER
      then (case run_pass cs objs 0 of
              Inl e \<Rightarrow> Inl e
            | Inr (objs', iterError) \<Rightarrow>
                if iterError < 0.001 then Inr (objs', totalResidual, iter + 1)
                else solve_loop cs (iter + 1) objs' iterError)
      else Inr (objs, totalResidual, iter))"
  by pat_completeness auto
termination
  by (relation "measure (\<lambda>(cs, iter, objs, r). MAX_ITER - iter)") auto

declare solve_loop.simps [simp del]

definition activeConstraints :: "Constraint list \<Rightarrow> Constraint list" where
  "activeConstraints cs = filter (\<lambda>c. truthy (enabled c)) cs"

text \<open>
  \<open>solve\<close>: the working list is a deep copy of the objects (the identity on values);
  a raised fault leaves the state as it was, since \<open>setObjects\<close> and \<open>setSolverStats\<close> are
  not reached.
\<close>

definition solve :: "EngineState \<Rightarrow> error + EngineState" where
  "solve st =
     (let active = activeConstraints (constraints st) in
      case solve_loop active 0 (objects st) 0 of
        Inl e \<Rightarrow> Inl e
      | Inr (currentObjects, totalResidual, passes) \<Rightarrow>
          Inr (st\<lparr>objects := currentObjects,
                  solverStats := \<lparr>iterations = MAX_ITER, totalError = totalResidual,
                                  verified = length active, total = length active\<rparr>\<rparr>))"

section \<open>The scene store (addObject, addConstraint)\<close>

text \<open>\<open>prev.findIndex(pred)\<close>; \<open>None\<close> is the result \<open>-1\<close>.\<close>

fun findIndex :: "('a \<Rightarrow> bool) \<Rightarrow> 'a list \<Rightarrow> nat option" where
  "findIndex pred [] = None"
| "findIndex pred (x # xs) =
     (if pred x then Some 0 else map_option Suc (findIndex pred xs))"

text \<open>
  The normalisation steps of \<open>addObject\<close>, in the order of the source. \<open>fresh\<close> is the
  string that \<open>Math.random().toString(36).substr(2, 9)\<close> yields in this call.
\<close>

definition ensure_id :: "string \<Rightarrow> GeometryObject \<Rightarrow> GeometryObject" where
  "ensure_id fresh obj = (if \<not> truthy_str (obj_id obj) then obj\<lparr>obj_id := Some fresh\<rparr> else obj)"

definition visible_default :: "GeometryObject \<Rightarrow> GeometryObject" where
  "visible_default obj = (if visible obj = None then obj\<lparr>visible := Some True\<rparr> else obj)"

text \<open>\<open>!obj.points || obj.points.length === 0\<close>.\<close>

definition points_missing :: "GeometryObject \<Rightarrow> bool" where
  "points_missing obj = (case points obj of None \<Rightarrow> True | Some ps \<Rightarrow> length ps = 0)"

definition segment_points :: "GeometryObject \<Rightarrow> GeometryObject" where
  "segment_points obj =
     (if obj_type obj = SEGMENT
      then (case data obj of
              None \<Rightarrow> obj
            | Some d \<Rightarrow>
                if points_missing obj
                then (if truthy_str (data_p1 d) \<and> truthy_str (data_p2 d)
                      then obj\<lparr>points := Some [the (data_p1 d), the (data_p2 d)]\<rparr>
                      else (case data_points d of
                              Some ps \<Rightarrow> obj\<lparr>points := Some ps\<rparr>
                            | None \<Rightarrow> obj))
                else obj)
      else obj)"

definition polygon_points :: "GeometryObject \<Rightarrow> GeometryObject" where
  "polygon_points obj =
     (if obj_type obj = POLYGON
      then (case data obj of
              None \<Rightarrow> obj
            | Some d \<Rightarrow>
                if points_missing obj
                then (case data_points d of
                        Some ps \<Rightarrow> obj\<lparr>points := Some ps\<rparr>
                      | None \<Rightarrow> obj)
                else obj)
      else obj)"

definition normalize_object :: "string \<Rightarrow> GeometryObject \<Rightarrow> GeometryObject" where
  "normalize_object fresh rawObj =
     polygon_points (segment_points (visible_default (ensure_id fresh rawObj)))"

text \<open>Overwrite if the id exists, else append.\<close>

definition addObject :: "string \<Rightarrow> GeometryObject \<Rightarrow> EngineState \<Rightarrow> EngineState" where
  "addObject fresh rawObj st =
     (let prev = objects st; obj = normalize_object fresh rawObj in
      case findIndex (\<lambda>p. obj_id p = obj_id obj) prev of
        Some existsIndex \<Rightarrow> st\<lparr>objects := prev[existsIndex := obj]\<rparr>
      | None \<Rightarrow> st\<lparr>objects := prev @ [obj]\<rparr>)"

definition addConstraint :: "Constraint \<Rightarrow> EngineState \<Rightarrow> EngineState" where
  "addConstraint c st = st\<lparr>constraints := constraints st @ [c]\<rparr>"

section \<open>The view framer (computeOptimalView)\<close>

definition INITIAL_CAMERA_POS :: Point3 where
  "INITIAL_CAMERA_POS = (5, 5, 5)"

definition INITIAL_CAMERA_TARGET :: Point3 where
  "INITIAL_CAMERA_TARGET = (0, 0, 0)"

definition default_pose :: CameraPose where
  "default_pose = \<lparr>cam_position = INITIAL_CAMERA_POS, cam_target = INITIAL_CAMERA_TARGET\<rparr>"












section \<open>Example scenes\<close>

definition position_data :: "Point3 \<Rightarrow> ObjData" where
  "position_data v = \<lparr>position = Some v, normal = None, radius = None, height = None,
                       data_p1 = None, data_p2 = None, data_points = None\<rparr>"

definition endpoints_data :: "string \<Rightarrow> string \<Rightarrow> ObjData" where
  "endpoints_data a b = \<lparr>position = None, normal = None, radius = None, height = None,
                          data_p1 = Some a, data_p2 = Some b, data_points = None\<rparr>"

definition scene_object :: "string \<Rightarrow> ObjectType \<Rightarrow> ObjData option \<Rightarrow> GeometryObject" where
  "scene_object i t d = \<lparr>obj_id = Some i, obj_type = t, name = i, color = None,
                          visible = Some True, selected = None, fixed = None, points = None,
                          data = d\<rparr>"

definition scene_constraint ::
  "ConstraintType \<Rightarrow> string list \<Rightarrow> real option \<Rightarrow> bool option \<Rightarrow> Constraint" where
  "scene_constraint t ids tv en = \<lparr>c_id = ''c'', c_type = t, objectIds = ids, targetValue = tv,
                                    tolerance = None, enabled = en, residual = None\<rparr>"

definition scene_state :: "GeometryObject list \<Rightarrow> Constraint list \<Rightarrow> EngineState" where
  "scene_state objs cs = \<lparr>objects = objs, constraints = cs,
                           solverStats = \<lparr>iterations = 0, totalError = 0, verified = 0, total = 0\<rparr>,
                           cameraPose = default_pose\<rparr>"

text \<open>Two points \<open>A\<close> and \<open>B\<close> on the x axis.\<close>

definition x_axis_points :: "real \<Rightarrow> real \<Rightarrow> GeometryObject list" where
  "x_axis_points a b = [scene_object ''A'' POINT (Some (position_data (a, 0, 0))),
                        scene_object ''B'' POINT (Some (position_data (b, 0, 0)))]"

text \<open>A segment without a data bag as the first operand of a midpoint constraint.\<close>

definition midpoint_of_segment_scene :: EngineState where
  "midpoint_of_segment_scene =
     scene_state
       [scene_object ''S'' SEGMENT None,
        scene_object ''A'' POINT (Some (position_data (0, 0, 0))),
        scene_object ''B'' POINT (Some (position_data (2, 0, 0)))]
       [scene_constraint MIDPOINT [''S'', ''A'', ''B''] None (Some True),
        scene_constraint DISTANCE [''A'', ''B''] (Some 1) (Some True)]"

text \<open>Two points at distance 1 whose distance constraint asks for 1.0015.\<close>

definition stale_scene :: EngineState where
  "stale_scene = scene_state (x_axis_points 0 1)
                   [scene_constraint DISTANCE [''A'', ''B''] (Some 1.0015) (Some True)]"

text \<open>A segment payload whose first endpoint field is the empty string.\<close>

definition empty_endpoint_segment :: GeometryObject where
  "empty_endpoint_segment = scene_object ''s'' SEGMENT (Some (endpoints_data [] ''B''))"

text \<open>A circle and a point at distance 1 whose distance constraint asks for 1.0005, and
  the state after \<open>solve\<close>.\<close>

definition circle_scene :: EngineState where
  "circle_scene =
     scene_state
       [scene_object ''A'' CIRCLE (Some (position_data (0, 0, 0))),
        scene_object ''B'' POINT (Some (position_data (1, 0, 0)))]
       [scene_constraint DISTANCE [''A'', ''B''] (Some 1.0005) (Some True)]"

definition circle_scene_solved :: EngineState where
  "circle_scene_solved =
     circle_scene\<lparr>objects := [scene_object ''A'' CIRCLE (Some (position_data (- (1 / 8000), 0, 0))),
                               scene_object ''B'' POINT (Some (position_data (8001 / 8000, 0, 0)))],
                   solverStats := \<lparr>iterations = 50, totalError = 0, verified = 1, total = 1\<rparr>\<rparr>"

text \<open>A fixed point, a free point and a segment without data, and the state after \<open>solve\<close>.\<close>

definition pinned_scene :: EngineState where
  "pinned_scene =
     scene_state
       [scene_object ''A'' POINT (Some (position_data (0, 0, 0)))\<lparr>fixed := Some True\<rparr>,
        scene_object ''B'' POINT (Some (position_data (1, 0, 0))),
        scene_object ''S'' SEGMENT None]
       [scene_constraint DISTANCE [''A'', ''B''] (Some 1.0005) (Some True)]"

definition pinned_scene_solved :: EngineState where
  "pinned_scene_solved =
     pinned_scene\<lparr>objects := [scene_object ''A'' POINT (Some (position_data (0, 0, 0)))\<lparr>fixed := Some True\<rparr>,
                               scene_object ''B'' POINT (Some (position_data (8001 / 8000, 0, 0))),
                               scene_object ''S'' SEGMENT None],
                   solverStats := \<lparr>iterations = 50, totalError = 0, verified = 1, total = 1\<rparr>\<rparr>"





section \<open>Definitions used to state the claims\<close>



text \<open>
  What \<open>solve\<close> may do to an object: \<open>same_but_position p q\<close> says that \<open>q\<close> is \<open>p\<close> up to
  the position field of the data bag (every other field, and the presence of the data bag,
  agree); only an object that is not fixed and carries a position may differ at all.
\<close>

definition erase_position :: "GeometryObject \<Rightarrow> GeometryObject" where
  "erase_position p =
     p\<lparr>data := (case data p of None \<Rightarrow> None | Some d \<Rightarrow> Some (d\<lparr>position := None\<rparr>))\<rparr>"

definition same_but_position :: "GeometryObject \<Rightarrow> GeometryObject \<Rightarrow> bool" where
  "same_but_position p q = (erase_position q = erase_position p)"

definition may_move :: "GeometryObject \<Rightarrow> bool" where
  "may_move p = (\<not> truthy (fixed p) \<and> data_position p \<noteq> None)"

definition solver_touch :: "GeometryObject \<Rightarrow> GeometryObject \<Rightarrow> bool" where
  "solver_touch p q = (same_but_position p q \<and> (\<not> may_move p \<longrightarrow> q = p))"













section \<open>Evaluation lemmas\<close>

lemmas fixture_defs =
  position_data_def endpoints_data_def scene_object_def scene_constraint_def scene_state_def
  x_axis_points_def

lemmas step_defs =
  constraint_step_def distance_step_def midpoint_step_def find_obj_def nth_opt_def
  position_or_raise_def data_position_def Let_def truthy_def LEARNING_RATE_def vadd_def vsub_def
  multiplyScalar_def activeConstraints_def

lemmas normalize_defs =
  normalize_object_def polygon_points_def segment_points_def visible_default_def ensure_id_def
  truthy_str_def points_missing_def

lemma distanceTo_x_axis: "distanceTo (a, 0, 0) (b, 0, 0) = \<bar>a - b\<bar>"
  by (simp add: distanceTo_def distanceToSquared_def)

lemma solve_loop_empty_scene: "solve_loop [] 0 [] 0 = Inr ([], 0, 1)"
  by (subst solve_loop.simps) (simp add: MAX_ITER_def)

lemma solve_empty_scene:
  "solve (scene_state [] []) =
     Inr (scene_state [] []\<lparr>solverStats := \<lparr>iterations = 50, totalError = 0, verified = 0, total = 0\<rparr>\<rparr>)"
  by (simp add: solve_def scene_state_def activeConstraints_def solve_loop_empty_scene MAX_ITER_def)

lemma stale_pass1:
  "run_pass (activeConstraints (constraints stale_scene)) (objects stale_scene) 0
     = Inr (x_axis_points (- (3 / 8000)) (8003 / 8000), 3 / 2000)"
  by (simp add: stale_scene_def fixture_defs step_defs distanceTo_x_axis)

lemma stale_pass2:
  "run_pass (activeConstraints (constraints stale_scene)) (x_axis_points (- (3 / 8000)) (8003 / 8000)) 0
     = Inr (x_axis_points (- (9 / 16000)) (16009 / 16000), 3 / 4000)"
  by (simp add: stale_scene_def fixture_defs step_defs distanceTo_x_axis)

lemma stale_loop:
  "solve_loop (activeConstraints (constraints stale_scene)) 0 (objects stale_scene) 0
     = Inr (x_axis_points (- (9 / 16000)) (16009 / 16000), 3 / 2000, 2)"
  apply (subst solve_loop.simps)
  apply (simp only: stale_pass1)
  apply (simp add: MAX_ITER_def)
  apply (subst solve_loop.simps)
  apply (simp only: stale_pass2)
  apply (simp add: MAX_ITER_def)
  done

lemma stale_active: "length (activeConstraints (constraints stale_scene)) = 1"
  by (simp add: stale_scene_def scene_state_def activeConstraints_def scene_constraint_def
                truthy_def)

lemma stale_solve:
  "solve stale_scene =
     Inr (stale_scene\<lparr>objects := x_axis_points (- (9 / 16000)) (16009 / 16000),
                      solverStats := \<lparr>iterations = 50, totalError = 3 / 2000,
                                      verified = 1, total = 1\<rparr>\<rparr>)"
  using stale_active by (simp add: solve_def stale_loop Let_def MAX_ITER_def)

section \<open>Scene store lemmas\<close>

lemma find_update_first:
  "findIndex P xs = Some i \<Longrightarrow> P y \<Longrightarrow> find P (xs[i := y]) = Some y"
proof (induction xs arbitrary: i)
  case Nil
  then show ?case by simp
next
  case (Cons x xs)
  then show ?case by (cases "P x") auto
qed

lemma find_append_new:
  "findIndex P xs = None \<Longrightarrow> P y \<Longrightarrow> find P (xs @ [y]) = Some y"
  by (induction xs) (auto split: if_splits)

lemma addObject_stored:
  "find_obj (objects (addObject fresh raw st)) (obj_id (normalize_object fresh raw))
     = Some (normalize_object fresh raw)"
  by (auto simp: addObject_def find_obj_def Let_def find_update_first find_append_new
           split: option.splits)

section \<open>Vectors and the working list\<close>







lemma find_obj_set_position:
  "find_obj (set_position i v objs) j =
     (if j = i
      then map_option (\<lambda>p. p\<lparr>data := (case data p of None \<Rightarrow> None | Some d \<Rightarrow> Some (d\<lparr>position := Some v\<rparr>))\<rparr>) (find_obj objs i)
      else find_obj objs j)"
  by (induction objs) (auto simp: find_obj_def)


section \<open>The default target of a distance constraint\<close>








section \<open>What the solver may change\<close>

lemma same_but_position_refl: "same_but_position p p"
  by (simp add: same_but_position_def)

lemma same_but_position_trans:
  "same_but_position p q \<Longrightarrow> same_but_position q r \<Longrightarrow> same_but_position p r"
  by (simp add: same_but_position_def)

lemma solver_touch_refl: "solver_touch p p"
  by (simp add: solver_touch_def same_but_position_refl)

lemma solver_touch_trans:
  "solver_touch p q \<Longrightarrow> solver_touch q r \<Longrightarrow> solver_touch p r"
  unfolding solver_touch_def using same_but_position_trans by blast

lemma touch_all_refl: "list_all2 solver_touch objs objs"
  by (simp add: list_all2_refl solver_touch_refl)

lemma touch_all_trans:
  "list_all2 solver_touch xs ys \<Longrightarrow> list_all2 solver_touch ys zs \<Longrightarrow> list_all2 solver_touch xs zs"
  using list_all2_trans [of solver_touch solver_touch solver_touch] solver_touch_trans by blast

lemma set_position_touch:
  "find_obj objs i = Some p \<Longrightarrow> may_move p \<Longrightarrow> list_all2 solver_touch objs (set_position i v objs)"
proof (induction objs)
  case Nil
  then show ?case by simp
next
  case (Cons x xs)
  show ?case
  proof (cases "obj_id x = i")
    case True
    with Cons.prems have "x = p" by (simp add: find_obj_def)
    with Cons.prems(2) have "solver_touch x (x\<lparr>data := (case data x of None \<Rightarrow> None | Some d \<Rightarrow> Some (d\<lparr>position := Some v\<rparr>))\<rparr>)"
      by (auto simp: solver_touch_def same_but_position_def erase_position_def may_move_def
               split: option.splits)
    with True show ?thesis by (simp add: touch_all_refl)
  next
    case False
    with Cons show ?thesis by (simp add: find_obj_def solver_touch_refl)
  qed
qed

lemma may_move_updated:
  "may_move p \<Longrightarrow>
   may_move (p\<lparr>data := (case data p of None \<Rightarrow> None | Some d \<Rightarrow> Some (d\<lparr>position := Some v\<rparr>))\<rparr>)"
  by (cases v) (auto simp: may_move_def data_position_def split: option.splits)

lemma set_position_twice_touch:
  assumes "find_obj objs i = Some p" "may_move p" "find_obj objs j = Some q" "may_move q"
  shows "list_all2 solver_touch objs (set_position j w (set_position i v objs))"
proof -
  have "\<exists>q'. find_obj (set_position i v objs) j = Some q' \<and> may_move q'"
    using assms by (auto simp: find_obj_set_position may_move_updated)
  then have "list_all2 solver_touch (set_position i v objs) (set_position j w (set_position i v objs))"
    using set_position_touch by blast
  with set_position_touch [OF assms(1,2)] show ?thesis
    using touch_all_trans by blast
qed

lemma distance_step_touch: "list_all2 solver_touch objs (fst (distance_step c objs e))"
  by (auto simp: distance_step_def Let_def touch_all_refl may_move_def
        intro!: set_position_touch set_position_twice_touch split: option.splits)

lemma position_or_raise_Inr: "position_or_raise p = Inr v \<Longrightarrow> data_position p = Some v"
  by (auto simp: position_or_raise_def data_position_def split: option.splits)

lemma midpoint_step_touch:
  "midpoint_step c objs e = Inr (objs', e') \<Longrightarrow> list_all2 solver_touch objs objs'"
  by (auto simp: midpoint_step_def Let_def touch_all_refl may_move_def
        dest!: position_or_raise_Inr
        intro!: set_position_touch split: option.splits sum.splits if_splits)

lemma constraint_step_touch:
  "constraint_step c objs e = Inr (objs', e') \<Longrightarrow> list_all2 solver_touch objs objs'"
  using distance_step_touch [of objs c e] midpoint_step_touch [of c objs e objs' e']
  by (auto simp: constraint_step_def touch_all_refl split: if_splits)

lemma run_pass_touch:
  "run_pass cs objs e = Inr (objs', e') \<Longrightarrow> list_all2 solver_touch objs objs'"
proof (induction cs arbitrary: objs e)
  case Nil
  then show ?case by (simp add: touch_all_refl)
next
  case (Cons c cs)
  from Cons.prems obtain objs1 e1 where
    s: "constraint_step c objs e = Inr (objs1, e1)" and r: "run_pass cs objs1 e1 = Inr (objs', e')"
    by (auto split: sum.splits)
  from constraint_step_touch [OF s] Cons.IH [OF r] show ?case
    by (rule touch_all_trans)
qed

lemma solve_loop_touch:
  "solve_loop cs iter objs r = Inr (objs', r', n) \<Longrightarrow> list_all2 solver_touch objs objs'"
proof (induction cs iter objs r rule: solve_loop.induct)
  case (1 cs iter objs r)
  show ?case
  proof (cases "iter < MAX_ITER")
    case False
    with "1.prems" show ?thesis by (subst (asm) solve_loop.simps) (simp add: touch_all_refl)
  next
    case True
    with "1.prems" obtain objs1 e1 where p: "run_pass cs objs 0 = Inr (objs1, e1)"
      by (subst (asm) solve_loop.simps) (auto split: sum.splits)
    show ?thesis
    proof (cases "e1 < 0.001")
      case conv: True
      with "1.prems" True p have "objs' = objs1"
        by (subst (asm) solve_loop.simps) simp
      with run_pass_touch [OF p] show ?thesis by simp
    next
      case cont: False
      with "1.prems" True p have "solve_loop cs (iter + 1) objs1 e1 = Inr (objs', r', n)"
        by (subst (asm) solve_loop.simps) simp
      from "1.IH" [OF True p refl cont this] run_pass_touch [OF p] show ?thesis
        using touch_all_trans by blast
    qed
  qed
qed

lemma circle_solve: "solve circle_scene = Inr circle_scene_solved"
  unfolding solve_def circle_scene_solved_def circle_scene_def
  apply (subst solve_loop.simps)
  apply (simp add: MAX_ITER_def fixture_defs step_defs distanceTo_x_axis)
  done

lemma pinned_solve: "solve pinned_scene = Inr pinned_scene_solved"
  unfolding solve_def pinned_scene_solved_def pinned_scene_def
  apply (subst solve_loop.simps)
  apply (simp add: MAX_ITER_def fixture_defs step_defs distanceTo_x_axis)
  done

section \<open>The bounding box of the view framer\<close>























section \<open>How far one pass moves an object\<close>


















section \<open>One distance constraint between two free points\<close>













section \<open>Claims\<close>

text \<open>
  C1. The claim: a constraint whose operand does not resolve, or whose resolved object has
  no position data, is skipped and \<open>solve\<close> never raises. The distance branch guards the
  position reads; the midpoint branch checks only that the three objects exist and then
  reads \<open>M.data.position\<close> unguarded. On a scene whose midpoint constraint names a
  segment without a data bag, \<open>solve\<close> raises a \<open>TypeError\<close>: the distance constraint
  stored after it is never evaluated and no result is committed.
\<close>

theorem solve_midpoint_missing_position_raises:
  "solve midpoint_of_segment_scene = Inl TypeError"
  unfolding solve_def midpoint_of_segment_scene_def
  apply (subst solve_loop.simps)
  apply (simp add: MAX_ITER_def fixture_defs step_defs)
  done

text \<open>
  C2, as claimed: only positions of non-fixed Point-type objects change. The solver never
  looks at the type tag of an operand: a circle that carries a position and is an operand
  of a distance constraint is moved like a point.
\<close>

theorem solve_moves_non_point_object:
  "solve circle_scene = Inr circle_scene_solved
   \<and> obj_type (objects circle_scene ! 0) = CIRCLE
   \<and> data_position (objects circle_scene ! 0) = Some (0, 0, 0)
   \<and> data_position (objects circle_scene_solved ! 0) = Some (- (1 / 8000), 0, 0)"
  by (simp add: circle_solve)
     (simp add: circle_scene_solved_def circle_scene_def fixture_defs data_position_def)

text \<open>
  C2, amended: whenever \<open>solve\<close> returns, the object list has the same length and, index by
  index, the same objects up to the position field of the data bag (so no object is created,
  deleted or reordered, and ids, types and flags are kept); the constraints are unchanged;
  an object that is fixed, and an object that carries no position, is unchanged altogether.
  The objects that may be moved are the non-fixed objects with a position, of any type.
\<close>

theorem solve_rewrites_positions_only:
  assumes "solve st = Inr st'"
  shows "length (objects st') = length (objects st)
     \<and> constraints st' = constraints st
     \<and> (\<forall>i < length (objects st).
           same_but_position (objects st ! i) (objects st' ! i)
           \<and> (truthy (fixed (objects st ! i)) \<longrightarrow> objects st' ! i = objects st ! i)
           \<and> (data_position (objects st ! i) = None \<longrightarrow> objects st' ! i = objects st ! i))"
proof -
  from assms obtain objs' r n where
    loop: "solve_loop (activeConstraints (constraints st)) 0 (objects st) 0 = Inr (objs', r, n)"
    and st': "objects st' = objs'" "constraints st' = constraints st"
    by (auto simp: solve_def Let_def split: sum.splits)
  from solve_loop_touch [OF loop] st' have all: "list_all2 solver_touch (objects st) (objects st')"
    by simp
  then have len: "length (objects st') = length (objects st)"
    by (simp add: list_all2_lengthD)
  have "same_but_position (objects st ! i) (objects st' ! i)
           \<and> (truthy (fixed (objects st ! i)) \<longrightarrow> objects st' ! i = objects st ! i)
           \<and> (data_position (objects st ! i) = None \<longrightarrow> objects st' ! i = objects st ! i)"
    if "i < length (objects st)" for i
    using list_all2_nthD [OF all that] by (auto simp: solver_touch_def may_move_def)
  with len st' show ?thesis by blast
qed

theorem solve_rewrites_positions_only_witness:
  "solve pinned_scene = Inr pinned_scene_solved
   \<and> length (objects pinned_scene_solved) = length (objects pinned_scene)
   \<and> truthy (fixed (objects pinned_scene ! 0))
   \<and> objects pinned_scene_solved ! 0 = objects pinned_scene ! 0
   \<and> same_but_position (objects pinned_scene ! 1) (objects pinned_scene_solved ! 1)
   \<and> objects pinned_scene_solved ! 1 \<noteq> objects pinned_scene ! 1
   \<and> data_position (objects pinned_scene ! 2) = None
   \<and> objects pinned_scene_solved ! 2 = objects pinned_scene ! 2"
proof -
  note inst = solve_rewrites_positions_only [OF pinned_solve]
  have n: "length (objects pinned_scene) = 3"
    by (simp add: pinned_scene_def scene_state_def)
  have fx: "truthy (fixed (objects pinned_scene ! 0))"
    by (simp add: pinned_scene_def fixture_defs truthy_def)
  have np: "data_position (objects pinned_scene ! 2) = None"
    by (simp add: pinned_scene_def fixture_defs data_position_def)
  have mv: "objects pinned_scene_solved ! 1 \<noteq> objects pinned_scene ! 1"
    by (simp add: pinned_scene_solved_def pinned_scene_def fixture_defs)
  from inst n fx have a: "objects pinned_scene_solved ! 0 = objects pinned_scene ! 0" by simp
  from inst n have b: "same_but_position (objects pinned_scene ! 1) (objects pinned_scene_solved ! 1)"
    by simp
  from inst n np have c: "objects pinned_scene_solved ! 2 = objects pinned_scene ! 2" by simp
  from inst pinned_solve fx np mv a b c show ?thesis by simp
qed

text \<open>
  C3. The claim: when an iteration's total error is below 0.001 the loop stops and the
  reported residual is that iteration's total. The source breaks before it assigns
  \<open>totalResidual\<close>, so the reported residual is the total of the iteration before (or the
  initial 0). On \<open>stale_scene\<close> the second pass has total error 3/4000 and stops the loop,
  and the reported \<open>totalError\<close> is 3/2000, the total of the first pass.
\<close>

theorem solve_reports_stale_residual:
  "solve stale_scene =
     Inr (stale_scene\<lparr>objects := x_axis_points (- (9 / 16000)) (16009 / 16000),
                      solverStats := \<lparr>iterations = 50, totalError = 3 / 2000,
                                      verified = 1, total = 1\<rparr>\<rparr>)
   \<and> run_pass (activeConstraints (constraints stale_scene)) (objects stale_scene) 0
       = Inr (x_axis_points (- (3 / 8000)) (8003 / 8000), 3 / 2000)
   \<and> run_pass (activeConstraints (constraints stale_scene))
         (x_axis_points (- (3 / 8000)) (8003 / 8000)) 0
       = Inr (x_axis_points (- (9 / 16000)) (16009 / 16000), 3 / 4000)"
  by (intro conjI) (rule stale_solve, rule stale_pass1, rule stale_pass2)

text \<open>
  C4, as claimed: the reported iteration count is the number of iterations run. It is not:
  on the empty scene the loop runs one pass and stops, and the stats report 50.
\<close>

theorem solve_reports_cap_not_passes:
  "solve_loop (activeConstraints (constraints (scene_state [] []))) 0
       (objects (scene_state [] [])) 0 = Inr ([], 0, 1)
   \<and> solve (scene_state [] []) =
       Inr (scene_state [] []\<lparr>solverStats := \<lparr>iterations = 50, totalError = 0,
                                               verified = 0, total = 0\<rparr>\<rparr>)"
  by (simp add: solve_empty_scene)
     (simp add: scene_state_def activeConstraints_def solve_loop_empty_scene)

text \<open>
  C4, amended: whenever \<open>solve\<close> returns, the reported iteration count is the cap 50
  (\<open>MAX_ITER\<close>), whatever number of passes was run, and both the verified count and the
  total are the number of enabled constraints.
\<close>

theorem solve_stats_report:
  "solve st = Inr st' \<Longrightarrow>
     iterations (solverStats st') = 50
     \<and> verified (solverStats st') = length (activeConstraints (constraints st))
     \<and> total (solverStats st') = length (activeConstraints (constraints st))"
  by (auto simp: solve_def Let_def MAX_ITER_def split: sum.splits)

theorem solve_stats_report_witness:
  "solve stale_scene =
     Inr (stale_scene\<lparr>objects := x_axis_points (- (9 / 16000)) (16009 / 16000),
                      solverStats := \<lparr>iterations = 50, totalError = 3 / 2000,
                                      verified = 1, total = 1\<rparr>\<rparr>)
   \<and> iterations (solverStats
        (stale_scene\<lparr>objects := x_axis_points (- (9 / 16000)) (16009 / 16000),
                      solverStats := \<lparr>iterations = 50, totalError = 3 / 2000,
                                      verified = 1, total = 1\<rparr>\<rparr>)) = 50
   \<and> length (activeConstraints (constraints stale_scene)) = 1"
  using solve_stats_report [OF stale_solve] stale_solve stale_active by simp

text \<open>
  C5, as claimed: \<open>addConstraint\<close> defaults an unset enabled flag to true. It does not: the
  constraint is stored as given, its flag stays unset, and the enabled filter of \<open>solve\<close>
  drops it.
\<close>

theorem addConstraint_keeps_unset_enabled:
  "constraints (addConstraint (scene_constraint DISTANCE [''A'', ''B''] (Some 5) None)
                  (scene_state [] []))
     = [scene_constraint DISTANCE [''A'', ''B''] (Some 5) None]
   \<and> enabled (scene_constraint DISTANCE [''A'', ''B''] (Some 5) None) = None
   \<and> activeConstraints
        (constraints (addConstraint (scene_constraint DISTANCE [''A'', ''B''] (Some 5) None)
                        (scene_state [] []))) = []"
  by (simp add: addConstraint_def scene_state_def scene_constraint_def activeConstraints_def
                truthy_def)

text \<open>
  C5, amended: \<open>addConstraint\<close> appends the constraint unchanged; the stored constraint is
  among those \<open>solve\<close> evaluates exactly when its enabled flag is true, so a constraint
  added with the flag unset does not participate.
\<close>

theorem addConstraint_appends_unchanged:
  "constraints (addConstraint c st) = constraints st @ [c]
   \<and> (enabled c = Some True
        \<longrightarrow> c \<in> set (activeConstraints (constraints (addConstraint c st))))
   \<and> (enabled c \<noteq> Some True
        \<longrightarrow> c \<notin> set (activeConstraints (constraints (addConstraint c st))))"
  by (simp add: addConstraint_def activeConstraints_def truthy_def)

theorem addConstraint_appends_unchanged_witness:
  "enabled (scene_constraint DISTANCE [''A'', ''B''] (Some 5) (Some True)) = Some True
   \<and> scene_constraint DISTANCE [''A'', ''B''] (Some 5) (Some True)
       \<in> set (activeConstraints (constraints
            (addConstraint (scene_constraint DISTANCE [''A'', ''B''] (Some 5) (Some True))
               (scene_state [] []))))
   \<and> enabled (scene_constraint DISTANCE [''A'', ''B''] (Some 5) None) \<noteq> Some True
   \<and> scene_constraint DISTANCE [''A'', ''B''] (Some 5) None
       \<notin> set (activeConstraints (constraints
            (addConstraint (scene_constraint DISTANCE [''A'', ''B''] (Some 5) None)
               (scene_state [] []))))"
proof -
  have on: "enabled (scene_constraint DISTANCE [''A'', ''B''] (Some 5) (Some True)) = Some True"
    by (simp add: scene_constraint_def)
  have off: "enabled (scene_constraint DISTANCE [''A'', ''B''] (Some 5) None) \<noteq> Some True"
    by (simp add: scene_constraint_def)
  from on addConstraint_appends_unchanged
          [of "scene_constraint DISTANCE [''A'', ''B''] (Some 5) (Some True)" "scene_state [] []"]
  have a: "scene_constraint DISTANCE [''A'', ''B''] (Some 5) (Some True)
       \<in> set (activeConstraints (constraints
            (addConstraint (scene_constraint DISTANCE [''A'', ''B''] (Some 5) (Some True))
               (scene_state [] []))))"
    by blast
  from off addConstraint_appends_unchanged
          [of "scene_constraint DISTANCE [''A'', ''B''] (Some 5) None" "scene_state [] []"]
  have b: "scene_constraint DISTANCE [''A'', ''B''] (Some 5) None
       \<notin> set (activeConstraints (constraints
            (addConstraint (scene_constraint DISTANCE [''A'', ''B''] (Some 5) None)
               (scene_state [] []))))"
    by blast
  from on off a b show ?thesis by blast
qed







text \<open>
  C9, as claimed: every segment payload with the two endpoint fields and no ordered id
  list is stored with the list of those two ids. The source tests the fields for
  truthiness (\<open>obj.data.p1 && obj.data.p2\<close>), so an empty string counts as absent: the
  payload whose \<open>p1\<close> is the empty string and whose \<open>p2\<close> is \<open>B\<close> is stored without an
  id list.
\<close>

theorem segment_empty_endpoint_not_backfilled:
  "objects (addObject ''fresh'' empty_endpoint_segment (scene_state [] []))
     = [empty_endpoint_segment]
   \<and> obj_type empty_endpoint_segment = SEGMENT
   \<and> data empty_endpoint_segment = Some (endpoints_data [] ''B'')
   \<and> points empty_endpoint_segment = None"
  by (simp add: empty_endpoint_segment_def addObject_def normalize_defs fixture_defs)

text \<open>
  C9, amended: a segment payload whose two endpoint fields are non-empty ids and whose
  ordered id list is absent or empty is stored (under its id, in the object list) with the
  id list made of those two ids in the order given.
\<close>

theorem segment_endpoints_backfilled:
  assumes "obj_type raw = SEGMENT" and "data raw = Some d"
    and "data_p1 d = Some a" and "data_p2 d = Some b" and "a \<noteq> []" and "b \<noteq> []"
    and "points raw = None \<or> points raw = Some []"
  shows "\<exists>stored.
           find_obj (objects (addObject fresh raw st)) (obj_id (normalize_object fresh raw))
             = Some stored
           \<and> stored \<in> set (objects (addObject fresh raw st))
           \<and> points stored = Some [a, b]"
proof -
  have "points (normalize_object fresh raw) = Some [a, b]"
    using assms by (auto simp: normalize_defs)
  moreover have "normalize_object fresh raw \<in> set (objects (addObject fresh raw st))"
    using addObject_stored [of fresh raw st] by (auto simp: find_obj_def find_Some_iff)
  ultimately show ?thesis
    using addObject_stored by blast
qed

theorem segment_endpoints_backfilled_witness:
  "\<exists>stored.
     find_obj (objects (addObject ''fresh''
                          (scene_object ''s'' SEGMENT (Some (endpoints_data ''A'' ''B'')))
                          (scene_state [] []))) (Some ''s'') = Some stored
     \<and> stored \<in> set (objects (addObject ''fresh''
                          (scene_object ''s'' SEGMENT (Some (endpoints_data ''A'' ''B'')))
                          (scene_state [] [])))
     \<and> points stored = Some [''A'', ''B'']"
  using segment_endpoints_backfilled
          [of "scene_object ''s'' SEGMENT (Some (endpoints_data ''A'' ''B''))"
              "endpoints_data ''A'' ''B''" "''A''" "''B''" "''fresh''" "scene_state [] []"]
  by (simp add: fixture_defs normalize_defs)



end
